theory Spec2Isabelle
  imports Main "HOL-Library.Sublist"
begin

section \<open>Python values, exceptions and the builtins the validators call\<close>

text \<open>
  The validated columns of \<open>server/models.py\<close> are all declared \<open>db.String\<close>, so the
  \<open>value\<close> a validator receives is \<open>None\<close> or a \<open>str\<close>. A \<open>str\<close> is a sequence of code
  points; it is modelled as a \<open>string\<close> whose characters stand for the code points
  \<open>0 .. 255\<close> (the Latin-1 range), so that \<open>length\<close> counts what Python's \<open>len\<close> counts.
\<close>

datatype pyval = PNone | PStr string

text \<open>
  Every \<open>raise\<close> of the source raises \<open>ValueError(message)\<close>. The builtins \<open>len\<close> and
  \<open>in\<close> raise \<open>TypeError\<close> when applied to \<open>None\<close>; its message is not modelled.
\<close>

datatype pyexc = ValueError string | TypeError

text \<open>
  \<open>str.isspace\<close> on one code point below 256: the characters
  \<open>\t \n \v \f \r\<close>, the separators \<open>0x1C .. 0x1F\<close>, the space, NEL \<open>0x85\<close> and the
  no-break space \<open>0xA0\<close>.
\<close>

definition isspace :: "char \<Rightarrow> bool" where
  "isspace c = ((of_char c :: nat) \<in> set [9, 10, 11, 12, 13, 28, 29, 30, 31, 32, 133, 160])"



text \<open>\<open>str(value)\<close>: a \<open>str\<close> is returned as it is, \<open>None\<close> prints as \<open>None\<close>.\<close>

fun py_str :: "pyval \<Rightarrow> string" where
  "py_str PNone = ''None''"
| "py_str (PStr s) = s"

text \<open>\<open>s.strip()\<close>: leading and trailing whitespace removed.\<close>

definition strip :: "string \<Rightarrow> string" where
  "strip s = rev (dropWhile isspace (rev (dropWhile isspace s)))"


text \<open>\<open>len(value)\<close>.\<close>

fun py_len :: "pyval \<Rightarrow> pyexc + nat" where
  "py_len PNone = Inl TypeError"
| "py_len (PStr s) = Inr (length s)"

text \<open>\<open>phrase in value\<close> for a \<open>str\<close> phrase: substring containment.\<close>

fun py_in :: "string \<Rightarrow> pyval \<Rightarrow> pyexc + bool" where
  "py_in phrase PNone = Inl TypeError"
| "py_in phrase (PStr s) = Inr (sublist phrase s)"

text \<open>
  \<open>any(...)\<close> over a generator: the elements are computed one at a time, the first
  true one ends the loop, and an exception raised by an element propagates.
\<close>

fun py_any :: "(pyexc + bool) list \<Rightarrow> pyexc + bool" where
  "py_any [] = Inr False"
| "py_any (Inl e # rs) = Inl e"
| "py_any (Inr b # rs) = (if b then Inr True else py_any rs)"

section \<open>Constants\<close>

definition CLICKBAIT_PHRASES :: "string list" where
  "CLICKBAIT_PHRASES = [''Won't Believe'', ''Secret'', ''Top'', ''Guess'']"

definition ALLOWED_CATEGORIES :: "pyval list" where
  "ALLOWED_CATEGORIES = [PStr ''Fiction'', PStr ''Non-Fiction'']"

section \<open>Storage\<close>

text \<open>
  A row of the \<open>authors\<close> table (the timestamps, which storage sets, are left out), and
  the part of the database the name validator reads: the table names the inspector
  lists and the rows \<open>Author.query\<close> ranges over.
\<close>

record author =
  id' :: int
  name :: string
  phone_number :: pyval

record storage =
  table_names :: "string list"
  authors :: "author list"

text \<open>\<open>inspector.get_table_names()\<close>.\<close>

definition get_table_names :: "storage \<Rightarrow> string list" where
  "get_table_names db = table_names db"

text \<open>\<open>Author.query.filter(Author.name == value).first()\<close>.\<close>

definition query_first_by_name :: "storage \<Rightarrow> pyval \<Rightarrow> author option" where
  "query_first_by_name db v = find (\<lambda>a. PStr (name a) = v) (authors db)"

section \<open>Author validators\<close>

text \<open>
  The validators take \<open>self\<close> and \<open>key\<close> and use neither; the model leaves them out.
  \<open>validate_name\<close> reads the database behind the session, which is an argument here.
\<close>

definition validate_name :: "storage \<Rightarrow> pyval \<Rightarrow> pyexc + pyval" where
  "validate_name db v =
     (if v = PNone \<or> strip (py_str v) = '''' then Inl (ValueError ''Author must have a name.'')
      else if ''authors'' \<in> set (get_table_names db) then
        (case query_first_by_name db v of
           Some existing \<Rightarrow> Inl (ValueError ''Author name must be unique.'')
         | None \<Rightarrow> Inr v)
      else Inr v)"


section \<open>Post validators\<close>

definition validate_title :: "pyval \<Rightarrow> pyexc + pyval" where
  "validate_title v =
     (if v = PNone \<or> strip (py_str v) = '''' then Inl (ValueError ''Post must have a title.'')
      else case py_any (map (\<lambda>phrase. py_in phrase v) CLICKBAIT_PHRASES) of
          Inl e \<Rightarrow> Inl e
        | Inr found \<Rightarrow>
            if \<not> found then Inl (ValueError ''Title must contain clickbait keywords.'')
            else Inr v)"

definition validate_content :: "pyval \<Rightarrow> pyexc + pyval" where
  "validate_content v =
     (if v = PNone then Inl (ValueError ''Post must have content.'')
      else case py_len v of
          Inl e \<Rightarrow> Inl e
        | Inr n \<Rightarrow>
            if n < 250 then Inl (ValueError ''Content must be at least 250 characters.'')
            else Inr v)"

definition validate_summary :: "pyval \<Rightarrow> pyexc + pyval" where
  "validate_summary v =
     (if v = PNone then Inr v
      else case py_len v of
          Inl e \<Rightarrow> Inl e
        | Inr n \<Rightarrow>
            if n > 250 then Inl (ValueError ''Summary must be 250 characters or fewer.'')
            else Inr v)"

definition validate_category :: "pyval \<Rightarrow> pyexc + pyval" where
  "validate_category v =
     (if v \<notin> set ALLOWED_CATEGORIES then Inl (ValueError ''Category must be Fiction or Non-Fiction.'')
      else Inr v)"

section \<open>Example inputs\<close>

text \<open>A database whose \<open>authors\<close> table exists and holds one author, Ann.\<close>

definition db_ann :: storage where
  "db_ann = \<lparr>table_names = [''authors'', ''posts''],
             authors = [\<lparr>id' = 1, name = ''Ann'', phone_number = PNone\<rparr>]\<rparr>"

text \<open>
  A database whose \<open>authors\<close> table holds a row with a blank name (the column is only
  \<open>nullable=False\<close>: a row written without the validator can hold one).
\<close>

definition db_blank :: storage where
  "db_blank = \<lparr>table_names = [''authors''],
               authors = [\<lparr>id' = 1, name = '' '', phone_number = PNone\<rparr>]\<rparr>"

text \<open>A database in which the \<open>authors\<close> table is not listed by the inspector.\<close>

definition db_no_table :: storage where
  "db_no_table = \<lparr>table_names = [],
               authors = [\<lparr>id' = 1, name = ''Ann'', phone_number = PNone\<rparr>]\<rparr>"




section \<open>Facts about the builtins\<close>

text \<open>A string is blank after \<open>strip()\<close> exactly when all its characters are whitespace.\<close>

lemma strip_empty_iff: "strip s = '''' \<longleftrightarrow> list_all isspace s"
proof -
  let ?t = "dropWhile isspace s"
  have "strip s = '''' \<longleftrightarrow> (\<forall>c \<in> set ?t. isspace c)"
    by (simp add: strip_def)
  also have "\<dots> \<longleftrightarrow> ?t = ''''"
  proof
    assume all: "\<forall>c \<in> set ?t. isspace c"
    show "?t = ''''"
    proof (rule ccontr)
      assume ne: "?t \<noteq> ''''"
      then have "\<not> isspace (hd ?t)" by (rule hd_dropWhile)
      moreover from ne have "hd ?t \<in> set ?t" by simp
      ultimately show False using all by blast
    qed
  next
    assume "?t = ''''"
    then show "\<forall>c \<in> set ?t. isspace c" by (auto dest: set_dropWhileD)
  qed
  also have "\<dots> \<longleftrightarrow> list_all isspace s"
    by (simp add: list_all_iff)
  finally show ?thesis .
qed



text \<open>On a \<open>str\<close>, the \<open>any(phrase in value ...)\<close> loop finds a phrase iff one is a substring.\<close>

lemma py_any_py_in:
  "py_any (map (\<lambda>phrase. Inr (sublist phrase s)) ps) = Inr (\<exists>p \<in> set ps. sublist p s)"
  by (induction ps) auto

section \<open>The uniqueness lookup\<close>

lemma query_first_by_name_None:
  "(query_first_by_name db v = None) = (\<forall>a \<in> set (authors db). PStr (name a) \<noteq> v)"
  by (auto simp: query_first_by_name_def find_None_iff)

lemma query_first_by_name_Some:
  "(\<exists>r. query_first_by_name db v = Some r) = (\<exists>a \<in> set (authors db). PStr (name a) = v)"
  using query_first_by_name_None [of db v] by (cases "query_first_by_name db v") auto

section \<open>The title validator, case by case\<close>

lemma validate_title_PNone: "validate_title PNone = Inl (ValueError ''Post must have a title.'')"
  by (simp add: validate_title_def)

lemma validate_title_PStr:
  "validate_title (PStr s) =
     (if strip s = '''' then Inl (ValueError ''Post must have a title.'')
      else if \<exists>p \<in> set CLICKBAIT_PHRASES. sublist p s then Inr (PStr s)
      else Inl (ValueError ''Title must contain clickbait keywords.''))"
  by (simp add: validate_title_def py_any_py_in)

section \<open>The name validator: uniqueness\<close>

text \<open>
  Claim C1, as the code has it. \<open>validate_name\<close> raises the uniqueness error
  (\<open>ValueError\<close> with the message \<open>Author name must be unique.\<close>) exactly when the value
  is neither \<open>None\<close> nor blank after \<open>strip()\<close>, the \<open>authors\<close> table is among the
  inspector's table names, and a stored author has the value as its name. When the table
  is not listed the lookup is skipped: the result does not depend on the stored rows,
  and by the first part it is never the uniqueness error.
\<close>

theorem validate_name_unique:
  "(validate_name db v = Inl (ValueError ''Author name must be unique.''))
     = (v \<noteq> PNone \<and> strip (py_str v) \<noteq> '''' \<and> ''authors'' \<in> set (get_table_names db)
        \<and> (\<exists>a \<in> set (authors db). PStr (name a) = v))
   \<and> (''authors'' \<notin> set (get_table_names db) \<longrightarrow>
        validate_name (db\<lparr>authors := rows\<rparr>) v = validate_name db v)"
proof -
  have skip: "validate_name (db\<lparr>authors := rows\<rparr>) v = validate_name db v"
    if "''authors'' \<notin> set (get_table_names db)"
    using that by (simp add: validate_name_def get_table_names_def)
  have "(validate_name db v = Inl (ValueError ''Author name must be unique.''))
     = (v \<noteq> PNone \<and> strip (py_str v) \<noteq> '''' \<and> ''authors'' \<in> set (get_table_names db)
        \<and> (\<exists>r. query_first_by_name db v = Some r))"
    by (simp add: validate_name_def split: option.splits)
  then show ?thesis using skip by (simp add: query_first_by_name_Some)
qed

theorem validate_name_unique_witness:
  "validate_name db_ann (PStr ''Ann'') = Inl (ValueError ''Author name must be unique.'')
   \<and> ''authors'' \<notin> set (get_table_names db_no_table)
   \<and> validate_name (db_no_table\<lparr>authors := []\<rparr>) (PStr ''Ann'') = validate_name db_no_table (PStr ''Ann'')
   \<and> validate_name db_no_table (PStr ''Ann'') = Inr (PStr ''Ann'')"
proof -
  have nt: "''authors'' \<notin> set (get_table_names db_no_table)"
    by (simp add: db_no_table_def get_table_names_def)
  have cond: "PStr ''Ann'' \<noteq> PNone \<and> strip (py_str (PStr ''Ann'')) \<noteq> ''''
      \<and> ''authors'' \<in> set (get_table_names db_ann)
      \<and> (\<exists>a \<in> set (authors db_ann). PStr (name a) = PStr ''Ann'')"
    by (simp add: db_ann_def get_table_names_def strip_def isspace_def)
  from validate_name_unique [of db_ann "PStr ''Ann''"] cond
  have 1: "validate_name db_ann (PStr ''Ann'') = Inl (ValueError ''Author name must be unique.'')"
    by blast
  from validate_name_unique [of db_no_table "PStr ''Ann''" "[]"] nt
  have 2: "validate_name (db_no_table\<lparr>authors := []\<rparr>) (PStr ''Ann'') = validate_name db_no_table (PStr ''Ann'')"
    by blast
  have 3: "validate_name db_no_table (PStr ''Ann'') = Inr (PStr ''Ann'')"
    by (simp add: validate_name_def db_no_table_def get_table_names_def strip_def isspace_def)
  from 1 nt 2 3 show ?thesis by blast
qed

text \<open>
  Without the condition on the value the equivalence of claim C1 fails: the required
  check runs first. In \<open>db_blank\<close> the table exists and the lookup for the name \<open>' '\<close>
  finds a stored author of that name, yet the validator raises the required-field error,
  not the uniqueness error.
\<close>

theorem validate_name_unique_counterexample:
  "''authors'' \<in> set (get_table_names db_blank)
   \<and> query_first_by_name db_blank (PStr '' '') = Some \<lparr>id' = 1, name = '' '', phone_number = PNone\<rparr>
   \<and> validate_name db_blank (PStr '' '') = Inl (ValueError ''Author must have a name.'')
   \<and> validate_name db_blank (PStr '' '') \<noteq> Inl (ValueError ''Author name must be unique.'')"
  by (simp add: validate_name_def db_blank_def get_table_names_def query_first_by_name_def
      strip_def isspace_def)

section \<open>The name validator: required and returned unchanged\<close>

text \<open>
  Claim C2. For every value \<open>v\<close>, \<open>validate_name\<close> raises the required-field error
  (\<open>ValueError\<close> with the message \<open>Author must have a name.\<close>) if and only if \<open>v\<close> is
  \<open>None\<close> or \<open>str(v)\<close> is empty after \<open>strip()\<close>, that is, consists of whitespace only;
  and for every non-blank \<open>v\<close> that no stored author has as its name, \<open>validate_name\<close>
  returns \<open>v\<close> unchanged.
\<close>

theorem validate_name_required:
  "(validate_name db v = Inl (ValueError ''Author must have a name.''))
     = (v = PNone \<or> strip (py_str v) = '''')
   \<and> (strip (py_str v) = '''') = list_all isspace (py_str v)
   \<and> (v \<noteq> PNone \<and> strip (py_str v) \<noteq> '''' \<and> (\<forall>a \<in> set (authors db). PStr (name a) \<noteq> v)
        \<longrightarrow> validate_name db v = Inr v)"
proof -
  have "validate_name db v = Inr v"
    if "v \<noteq> PNone" "strip (py_str v) \<noteq> ''''" "\<forall>a \<in> set (authors db). PStr (name a) \<noteq> v"
  proof -
    from that(3) have "query_first_by_name db v = None"
      by (simp add: query_first_by_name_None)
    with that(1,2) show ?thesis by (simp add: validate_name_def)
  qed
  moreover have "(validate_name db v = Inl (ValueError ''Author must have a name.''))
     = (v = PNone \<or> strip (py_str v) = '''')"
    by (simp add: validate_name_def split: option.splits)
  moreover note strip_empty_iff [of "py_str v"]
  ultimately show ?thesis by blast
qed

theorem validate_name_required_witness:
  "strip (py_str (PStr ''Ben'')) \<noteq> '''' \<and> validate_name db_ann (PStr ''Ben'') = Inr (PStr ''Ben'')
   \<and> validate_name db_ann (PStr '' '') = Inl (ValueError ''Author must have a name.'')
   \<and> validate_name db_ann PNone = Inl (ValueError ''Author must have a name.'')"
proof -
  have ne: "strip (py_str (PStr ''Ben'')) \<noteq> ''''" by (simp add: strip_def isspace_def)
  have uniq: "\<forall>a \<in> set (authors db_ann). PStr (name a) \<noteq> PStr ''Ben''" by (simp add: db_ann_def)
  have blank: "strip (py_str (PStr '' '')) = ''''" by (simp add: strip_def isspace_def)
  from validate_name_required [of db_ann "PStr ''Ben''"] ne uniq
  have 1: "validate_name db_ann (PStr ''Ben'') = Inr (PStr ''Ben'')" by blast
  from validate_name_required [of db_ann "PStr '' ''"] blank
  have 2: "validate_name db_ann (PStr '' '') = Inl (ValueError ''Author must have a name.'')" by blast
  from validate_name_required [of db_ann PNone]
  have 3: "validate_name db_ann PNone = Inl (ValueError ''Author must have a name.'')" by blast
  from ne 1 2 3 show ?thesis by blast
qed

section \<open>The phone number validator\<close>




section \<open>The title validator\<close>

text \<open>
  Claim C4. The clickbait phrases are \<open>Won't Believe\<close>, \<open>Secret\<close>, \<open>Top\<close> and \<open>Guess\<close>.
  For every value \<open>v\<close>, \<open>validate_title\<close> raises the required-field error
  \<open>Post must have a title.\<close> if \<open>v\<close> is \<open>None\<close> or blank after \<open>strip()\<close>; otherwise it
  returns \<open>v\<close> if \<open>v\<close> contains one of the phrases as a substring, character for
  character, and raises the content-policy error
  \<open>Title must contain clickbait keywords.\<close> if it contains none.
\<close>

theorem validate_title_clickbait:
  "set CLICKBAIT_PHRASES = {''Won't Believe'', ''Secret'', ''Top'', ''Guess''}
   \<and> (v = PNone \<or> strip (py_str v) = '''' \<longrightarrow>
        validate_title v = Inl (ValueError ''Post must have a title.''))
   \<and> (v \<noteq> PNone \<and> strip (py_str v) \<noteq> '''' \<and>
        (\<exists>p \<in> set CLICKBAIT_PHRASES. \<exists>pre suf. py_str v = pre @ p @ suf) \<longrightarrow>
        validate_title v = Inr v)
   \<and> (v \<noteq> PNone \<and> strip (py_str v) \<noteq> '''' \<and>
        \<not> (\<exists>p \<in> set CLICKBAIT_PHRASES. \<exists>pre suf. py_str v = pre @ p @ suf) \<longrightarrow>
        validate_title v = Inl (ValueError ''Title must contain clickbait keywords.''))"
proof (cases v)
  case PNone
  then show ?thesis by (simp add: validate_title_PNone CLICKBAIT_PHRASES_def)
next
  case (PStr s)
  have "(\<exists>p \<in> set CLICKBAIT_PHRASES. \<exists>pre suf. s = pre @ p @ suf)
      = (\<exists>p \<in> set CLICKBAIT_PHRASES. sublist p s)"
    by (simp add: sublist_def)
  with PStr show ?thesis
    by (simp add: validate_title_PStr) (simp add: CLICKBAIT_PHRASES_def)
qed

theorem validate_title_clickbait_witness:
  "validate_title (PStr ''10 Secret Tips'') = Inr (PStr ''10 Secret Tips'')
   \<and> validate_title (PStr ''Hello World'') = Inl (ValueError ''Title must contain clickbait keywords.'')
   \<and> validate_title (PStr ''10 secret tips'') = Inl (ValueError ''Title must contain clickbait keywords.'')
   \<and> validate_title (PStr ''  '') = Inl (ValueError ''Post must have a title.'')
   \<and> validate_title PNone = Inl (ValueError ''Post must have a title.'')"
proof -
  have nb: "strip ''10 Secret Tips'' \<noteq> '''' \<and> strip ''Hello World'' \<noteq> ''''
      \<and> strip ''10 secret tips'' \<noteq> '''' \<and> strip ''  '' = ''''"
    by (simp add: strip_def isspace_def)
  have has: "\<exists>p \<in> set CLICKBAIT_PHRASES. \<exists>pre suf. py_str (PStr ''10 Secret Tips'') = pre @ p @ suf"
  proof -
    have "''Secret'' \<in> set CLICKBAIT_PHRASES" by (simp add: CLICKBAIT_PHRASES_def)
    moreover have "py_str (PStr ''10 Secret Tips'') = ''10 '' @ ''Secret'' @ '' Tips''" by simp
    ultimately show ?thesis by blast
  qed
  have no1: "\<not> (\<exists>p \<in> set CLICKBAIT_PHRASES. \<exists>pre suf. py_str (PStr ''Hello World'') = pre @ p @ suf)"
    unfolding sublist_def [symmetric] by (simp add: CLICKBAIT_PHRASES_def) code_simp
  have no2: "\<not> (\<exists>p \<in> set CLICKBAIT_PHRASES. \<exists>pre suf. py_str (PStr ''10 secret tips'') = pre @ p @ suf)"
    unfolding sublist_def [symmetric] by (simp add: CLICKBAIT_PHRASES_def) code_simp
  from validate_title_clickbait [of "PStr ''10 Secret Tips''"] nb has
  have 1: "validate_title (PStr ''10 Secret Tips'') = Inr (PStr ''10 Secret Tips'')" by simp
  from validate_title_clickbait [of "PStr ''Hello World''"] nb no1
  have 2: "validate_title (PStr ''Hello World'') = Inl (ValueError ''Title must contain clickbait keywords.'')"
    by simp
  from validate_title_clickbait [of "PStr ''10 secret tips''"] nb no2
  have 3: "validate_title (PStr ''10 secret tips'') = Inl (ValueError ''Title must contain clickbait keywords.'')"
    by simp
  from validate_title_clickbait [of "PStr ''  ''"] nb
  have 4: "validate_title (PStr ''  '') = Inl (ValueError ''Post must have a title.'')" by simp
  from validate_title_clickbait [of PNone]
  have 5: "validate_title PNone = Inl (ValueError ''Post must have a title.'')" by simp
  from 1 2 3 4 5 show ?thesis by blast
qed

section \<open>The content validator\<close>

text \<open>
  Claim C5. \<open>validate_content\<close> raises the required-field error \<open>Post must have content.\<close>
  for \<open>None\<close>; it raises the length error \<open>Content must be at least 250 characters.\<close>
  if and only if the value is a string of fewer than 250 characters; and it returns
  every string of 250 characters or more, whatever its length. A string of 249
  characters is rejected, one of 250 characters is accepted.
\<close>

theorem validate_content_length:
  "validate_content PNone = Inl (ValueError ''Post must have content.'')
   \<and> (validate_content v = Inl (ValueError ''Content must be at least 250 characters.''))
       = (\<exists>s. v = PStr s \<and> length s < 250)
   \<and> (validate_content (PStr s) = Inr (PStr s)) = (250 \<le> length s)
   \<and> validate_content (PStr (replicate 249 c)) = Inl (ValueError ''Content must be at least 250 characters.'')
   \<and> validate_content (PStr (replicate 250 c)) = Inr (PStr (replicate 250 c))"
proof (cases v)
  case PNone
  then show ?thesis by (simp add: validate_content_def)
next
  case (PStr t)
  then show ?thesis by (auto simp: validate_content_def)
qed

section \<open>The summary validator\<close>

text \<open>
  Claim C6. \<open>validate_summary\<close> passes \<open>None\<close> through; it raises the length error
  \<open>Summary must be 250 characters or fewer.\<close> if and only if the value is a string of
  more than 250 characters; and whenever it does not raise it returns the value it was
  given. A string of 251 characters is rejected, one of 250 characters is accepted.
\<close>

theorem validate_summary_length:
  "validate_summary PNone = Inr PNone
   \<and> (validate_summary v = Inl (ValueError ''Summary must be 250 characters or fewer.''))
       = (\<exists>s. v = PStr s \<and> 250 < length s)
   \<and> (validate_summary v = Inr v) = (v = PNone \<or> (\<exists>s. v = PStr s \<and> length s \<le> 250))
   \<and> validate_summary v \<in> {Inr v, Inl (ValueError ''Summary must be 250 characters or fewer.'')}
   \<and> validate_summary (PStr (replicate 251 c)) = Inl (ValueError ''Summary must be 250 characters or fewer.'')
   \<and> validate_summary (PStr (replicate 250 c)) = Inr (PStr (replicate 250 c))"
proof (cases v)
  case PNone
  then show ?thesis by (simp add: validate_summary_def)
next
  case (PStr t)
  then show ?thesis by (auto simp: validate_summary_def)
qed

section \<open>The category validator\<close>

text \<open>
  Claim C7. \<open>validate_category\<close> returns its value if and only if the value is the
  string \<open>Fiction\<close> or the string \<open>Non-Fiction\<close>, and raises the content-policy error
  \<open>Category must be Fiction or Non-Fiction.\<close> for every other value; \<open>fiction\<close> and
  \<open>None\<close> are both rejected.
\<close>

theorem validate_category_allow_list:
  "(validate_category v = Inr v) = (v = PStr ''Fiction'' \<or> v = PStr ''Non-Fiction'')
   \<and> (validate_category v = Inl (ValueError ''Category must be Fiction or Non-Fiction.''))
       = (v \<noteq> PStr ''Fiction'' \<and> v \<noteq> PStr ''Non-Fiction'')
   \<and> validate_category (PStr ''fiction'') = Inl (ValueError ''Category must be Fiction or Non-Fiction.'')
   \<and> validate_category PNone = Inl (ValueError ''Category must be Fiction or Non-Fiction.'')"
proof -
  have "set ALLOWED_CATEGORIES = {PStr ''Fiction'', PStr ''Non-Fiction''}"
    by (simp add: ALLOWED_CATEGORIES_def)
  then show ?thesis by (auto simp: validate_category_def)
qed

section \<open>Validating a value twice\<close>




section \<open>The exception every validator raises\<close>



section \<open>The summary validator has no blank check\<close>

text \<open>
  Claim C10. \<open>validate_summary\<close> checks the length only: the empty string and every
  whitespace-only string of at most 250 characters are returned unchanged, and a string
  is accepted exactly when it has at most 250 characters.
\<close>

theorem validate_summary_no_blank_check:
  "validate_summary (PStr '''') = Inr (PStr '''')
   \<and> (list_all isspace s \<and> length s \<le> 250 \<longrightarrow> validate_summary (PStr s) = Inr (PStr s))
   \<and> (validate_summary (PStr s) = Inr (PStr s)) = (length s \<le> 250)"
proof -
  have "(validate_summary (PStr s) = Inr (PStr s)) = (length s \<le> 250)"
    by (simp add: validate_summary_def)
  moreover have "validate_summary (PStr '''') = Inr (PStr '''')"
    by (simp add: validate_summary_def)
  ultimately show ?thesis by blast
qed

theorem validate_summary_no_blank_check_witness:
  "list_all isspace ''   '' \<and> length ''   '' \<le> 250
   \<and> validate_summary (PStr ''   '') = Inr (PStr ''   '')"
proof -
  have h: "list_all isspace ''   '' \<and> length ''   '' \<le> 250"
    by (simp add: isspace_def)
  with validate_summary_no_blank_check [of "''   ''"] show ?thesis by blast
qed

end
